theory Spec2Isabelle
  imports Main "HOL-Library.Word"
begin

section \<open>Python values\<close>

text \<open>
  A Python \<open>str\<close> is a sequence of Unicode code points, so a string is a list of
  natural numbers; \<open>lit\<close> turns an ASCII literal of the source into such a list.
  The values \<open>json.loads\<close> returns are \<open>None\<close>, booleans, integers, floats, strings,
  lists and dictionaries. A float is kept as the text of its literal: the scripts never
  compute with one or compare two. A dictionary is an association list read with
  \<open>map_of\<close>.
\<close>

type_synonym str = "nat list"

definition lit :: "string \<Rightarrow> str" where
  "lit cs = map of_char cs"

datatype json =
    JNull
  | JBool bool
  | JInt int
  | JFloat str
  | JStr str
  | JArr "json list"
  | JObj "(str \<times> json) list"

text \<open>
  The exceptions the scripts can end with. \<open>Unmodelled\<close> is not a Python exception:
  it marks a run that leaves the model: \<open>str()\<close> of a list, of a dictionary or of a
  float, whose text is Python's \<open>repr\<close>, and the truth value of a float.
\<close>

datatype error =
    FileNotFoundError
  | UnicodeDecodeError
  | UnicodeEncodeError
  | JSONDecodeError
  | ValueError
  | KeyError json
  | TypeError
  | AttributeError
  | IndexError
  | Unmodelled

type_synonym 'a result = "error + 'a"

definition bind :: "'a result \<Rightarrow> ('a \<Rightarrow> 'b result) \<Rightarrow> 'b result" where
  "bind m f = (case m of Inl e \<Rightarrow> Inl e | Inr x \<Rightarrow> f x)"

fun mapM :: "('a \<Rightarrow> 'b result) \<Rightarrow> 'a list \<Rightarrow> 'b list result" where
  "mapM f [] = Inr []"
| "mapM f (x # xs) = bind (f x) (\<lambda>y. bind (mapM f xs) (\<lambda>ys. Inr (y # ys)))"

subsection \<open>Decimal text of an integer\<close>

fun digits :: "nat \<Rightarrow> str" where
  "digits n = (if n < 10 then [48 + n] else digits (n div 10) @ [48 + n mod 10])"

declare digits.simps [simp del]

definition str_int :: "int \<Rightarrow> str" where
  "str_int i = (if i < 0 then 45 # digits (nat (- i)) else digits (nat i))"

subsection \<open>Operations on values\<close>

text \<open>\<open>str(v)\<close>, which \<open>print\<close>, \<open>str.format\<close> and an f-string apply to a value.\<close>

fun py_str :: "json \<Rightarrow> str result" where
  "py_str JNull = Inr (lit ''None'')"
| "py_str (JBool b) = Inr (if b then lit ''True'' else lit ''False'')"
| "py_str (JInt i) = Inr (str_int i)"
| "py_str (JStr s) = Inr s"
| "py_str (JFloat l) = Inl Unmodelled"
| "py_str (JArr xs) = Inl Unmodelled"
| "py_str (JObj kvs) = Inl Unmodelled"

text \<open>\<open>v[k]\<close> with a string key \<open>k\<close>.\<close>

fun getitem :: "json \<Rightarrow> str \<Rightarrow> json result" where
  "getitem (JObj kvs) k = (case map_of kvs k of None \<Rightarrow> Inl (KeyError (JStr k)) | Some v \<Rightarrow> Inr v)"
| "getitem v k = Inl TypeError"

text \<open>\<open>v.get(k, d)\<close>: only a dictionary has the method.\<close>

fun get_default :: "json \<Rightarrow> str \<Rightarrow> json \<Rightarrow> json result" where
  "get_default (JObj kvs) k d = Inr (case map_of kvs k of None \<Rightarrow> d | Some v \<Rightarrow> v)"
| "get_default v k d = Inl AttributeError"

text \<open>\<open>for x in v\<close>: the elements of a list, the keys of a dictionary, the characters of a string.\<close>

fun py_iter :: "json \<Rightarrow> json list result" where
  "py_iter (JArr xs) = Inr xs"
| "py_iter (JObj kvs) = Inr (map (\<lambda>kv. JStr (fst kv)) kvs)"
| "py_iter (JStr s) = Inr (map (\<lambda>c. JStr [c]) s)"
| "py_iter v = Inl TypeError"

text \<open>Truth value of a value, as \<open>if v\<close> and \<open>v or w\<close> test it.\<close>

fun truthy :: "json \<Rightarrow> bool result" where
  "truthy JNull = Inr False"
| "truthy (JBool b) = Inr b"
| "truthy (JInt i) = Inr (i \<noteq> 0)"
| "truthy (JFloat l) = Inl Unmodelled"
| "truthy (JStr s) = Inr (s \<noteq> [])"
| "truthy (JArr xs) = Inr (xs \<noteq> [])"
| "truthy (JObj kvs) = Inr (kvs \<noteq> [])"

text \<open>\<open>sep.join(items)\<close>\<close>

fun join :: "str \<Rightarrow> str list \<Rightarrow> str" where
  "join sep [] = []"
| "join sep [s] = s"
| "join sep (s # t # ss) = s @ sep @ join sep (t # ss)"

text \<open>\<open>a + b\<close> with a string on the left: the right operand must be a string too.\<close>

fun str_concat :: "str \<Rightarrow> json \<Rightarrow> str result" where
  "str_concat a (JStr b) = Inr (a @ b)"
| "str_concat a v = Inl TypeError"

text \<open>\<open>v[0]\<close>.\<close>

fun index0 :: "json \<Rightarrow> json result" where
  "index0 (JArr []) = Inl IndexError"
| "index0 (JArr (x # xs)) = Inr x"
| "index0 (JStr []) = Inl IndexError"
| "index0 (JStr (c # cs)) = Inr (JStr [c])"
| "index0 (JObj kvs) = Inl (KeyError (JInt 0))"
| "index0 v = Inl TypeError"

text \<open>\<open>s.split(sep)\<close> for a separator of one character: the result is never empty.\<close>

fun split :: "nat \<Rightarrow> str \<Rightarrow> str list" where
  "split sep [] = [[]]"
| "split sep (c # cs) =
     (if c = sep then [] # split sep cs
      else (case split sep cs of [] \<Rightarrow> [[c]] | p # ps \<Rightarrow> (c # p) # ps))"

text \<open>\<open>s.split(sep, 1)\<close>: at most one split, at the first separator.\<close>

definition split1 :: "nat \<Rightarrow> str \<Rightarrow> str list" where
  "split1 sep s =
     (if sep \<in> set s then [takeWhile (\<lambda>c. c \<noteq> sep) s, tl (dropWhile (\<lambda>c. c \<noteq> sep) s)]
      else [s])"

text \<open>\<open>v.split('\n')[0]\<close>: only a string has the method.\<close>

fun split_first :: "json \<Rightarrow> str result" where
  "split_first (JStr s) = (case split 10 s of [] \<Rightarrow> Inl IndexError | p # ps \<Rightarrow> Inr p)"
| "split_first v = Inl AttributeError"

text \<open>\<open>'\n'.join(v)\<close>: \<open>v\<close> must be iterable and every item a string.\<close>

fun as_str :: "json \<Rightarrow> str result" where
  "as_str (JStr s) = Inr s"
| "as_str v = Inl TypeError"

definition join_lines :: "json \<Rightarrow> str result" where
  "join_lines v = bind (py_iter v) (\<lambda>xs. bind (mapM as_str xs) (\<lambda>ss. Inr (join [10] ss)))"

text \<open>\<open>sub in v\<close> for a string \<open>sub\<close>: substring of a string, element of a list, key of a dictionary.\<close>

fun starts_with :: "str \<Rightarrow> str \<Rightarrow> bool" where
  "starts_with [] s = True"
| "starts_with (p # ps) [] = False"
| "starts_with (p # ps) (c # cs) = (p = c \<and> starts_with ps cs)"

fun contains :: "str \<Rightarrow> str \<Rightarrow> bool" where
  "contains sub [] = (sub = [])"
| "contains sub (c # cs) = (starts_with sub (c # cs) \<or> contains sub cs)"

fun py_in :: "str \<Rightarrow> json \<Rightarrow> bool result" where
  "py_in sub (JStr s) = Inr (contains sub s)"
| "py_in sub (JArr xs) = Inr (JStr sub \<in> set xs)"
| "py_in sub (JObj kvs) = Inr (sub \<in> fst ` set kvs)"
| "py_in sub v = Inl TypeError"

section \<open>Runs\<close>

text \<open>
  What a run leaves behind: the text written to standard output and the exception that
  ended it, if any. Text printed before an exception stays printed.
\<close>

type_synonym run = "str \<times> error option"

definition seq :: "run \<Rightarrow> run \<Rightarrow> run" where
  "seq a b = (case snd a of Some e \<Rightarrow> a | None \<Rightarrow> (fst a @ fst b, snd b))"

definition bind_run :: "'a result \<Rightarrow> ('a \<Rightarrow> run) \<Rightarrow> run" where
  "bind_run m f = (case m of Inl e \<Rightarrow> ([], Some e) | Inr x \<Rightarrow> f x)"

fun for_each :: "('a \<Rightarrow> run) \<Rightarrow> 'a list \<Rightarrow> run" where
  "for_each body [] = ([], None)"
| "for_each body (x # xs) = seq (body x) (for_each body xs)"

text \<open>
  Standard output encodes what is written to it as UTF-8 with \<open>errors='strict'\<close>: a
  text with a surrogate code point (\<open>json.loads\<close> returns one for an escape such as
  \<open>\ud800\<close>) cannot be encoded, and writing it raises \<open>UnicodeEncodeError\<close> with
  nothing of it written.
\<close>

definition is_surrogate :: "nat \<Rightarrow> bool" where
  "is_surrogate c = (55296 \<le> c \<and> c \<le> 57343)"

definition encodable :: "str \<Rightarrow> bool" where
  "encodable s = list_all (\<lambda>c. \<not> is_surrogate c) s"

definition stdout_write :: "str \<Rightarrow> run" where
  "stdout_write s = (if encodable s then (s, None) else ([], Some UnicodeEncodeError))"

text \<open>\<open>print(a, b, ...)\<close> writes the \<open>str\<close> of each argument in turn, a space before
  every argument but the first, and a newline at the end.\<close>

fun print_args :: "bool \<Rightarrow> json list \<Rightarrow> run" where
  "print_args first [] = ([], None)"
| "print_args first (a # as) =
     seq (if first then ([], None) else stdout_write [32])
    (seq (bind_run (py_str a) stdout_write)
         (print_args False as))"

definition print :: "json list \<Rightarrow> run" where
  "print args = seq (print_args True args) (stdout_write [10])"

section \<open>The comprehension shared by check_full.py and failed_details.py\<close>

text \<open>\<open>[a for a in s.get('assertionResults',[]) if a.get('status')=='failed']\<close>\<close>

definition status_is_failed :: "json \<Rightarrow> bool result" where
  "status_is_failed a = bind (get_default a (lit ''status'') JNull) (\<lambda>st. Inr (st = JStr (lit ''failed'')))"

fun filterM :: "('a \<Rightarrow> bool result) \<Rightarrow> 'a list \<Rightarrow> 'a list result" where
  "filterM p [] = Inr []"
| "filterM p (x # xs) =
     bind (p x) (\<lambda>keep. bind (filterM p xs) (\<lambda>ys. Inr (if keep then x # ys else ys)))"

definition fails_of :: "json \<Rightarrow> json list result" where
  "fails_of s =
     bind (get_default s (lit ''assertionResults'') (JArr [])) (\<lambda>rs.
     bind (py_iter rs) (\<lambda>as. filterM status_is_failed as))"

section \<open>check_full.py\<close>

definition check_full_totals :: "json \<Rightarrow> run" where
  "check_full_totals j =
     bind_run (getitem j (lit ''numTotalTests'')) (\<lambda>t.
     bind_run (py_str t) (\<lambda>ts.
     bind_run (getitem j (lit ''numPassedTests'')) (\<lambda>p.
     bind_run (py_str p) (\<lambda>ps.
     bind_run (getitem j (lit ''numFailedTests'')) (\<lambda>f.
     bind_run (py_str f) (\<lambda>fs.
     bind_run (getitem j (lit ''numFailedTestSuites'')) (\<lambda>u.
     bind_run (py_str u) (\<lambda>us.
     print [JStr (lit ''total='' @ ts @ lit '' passed='' @ ps @ lit '' failed='' @ fs
                  @ lit '' failedSuites='' @ us)]))))))))"

definition check_full_suite :: "json \<Rightarrow> run" where
  "check_full_suite s =
     bind_run (get_default s (lit ''status'') JNull) (\<lambda>st.
     if st = JStr (lit ''failed'') then
       bind_run (fails_of s) (\<lambda>fails.
       bind_run (getitem s (lit ''name'')) (\<lambda>n.
       bind_run (py_str n) (\<lambda>ns.
       print [JStr (ns @ lit '' :: '' @ str_int (int (length fails)))])))
     else ([], None))"

definition check_full_report :: "json \<Rightarrow> run" where
  "check_full_report j =
     seq (check_full_totals j)
       (bind_run (getitem j (lit ''testResults'')) (\<lambda>tr.
        bind_run (py_iter tr) (\<lambda>suites.
        for_each check_full_suite suites)))"

section \<open>failed_details.py\<close>

text \<open>\<open>msg=(a.get('failureMessages') or [''])[0].split('\n')[0]\<close>\<close>

definition failed_details_msg :: "json \<Rightarrow> str result" where
  "failed_details_msg a =
     bind (get_default a (lit ''failureMessages'') JNull) (\<lambda>m.
     bind (truthy m) (\<lambda>t.
     bind (index0 (if t then m else JArr [JStr []])) (\<lambda>first.
     split_first first)))"

definition failed_details_assertion :: "json \<Rightarrow> run" where
  "failed_details_assertion a =
     bind_run (failed_details_msg a) (\<lambda>msg.
     seq (bind_run (getitem a (lit ''fullName'')) (\<lambda>fn. print [JStr (lit ''-''), fn]))
         (print [JStr (lit ''  ''), JStr msg]))"

definition failed_details_suite :: "json \<Rightarrow> run" where
  "failed_details_suite suite =
     bind_run (fails_of suite) (\<lambda>fails.
     if fails \<noteq> [] then
       seq (bind_run (getitem suite (lit ''name'')) (\<lambda>n.
            bind_run (str_concat [10] n) (\<lambda>line. print [JStr line])))
           (for_each failed_details_assertion fails)
     else ([], None))"

definition failed_details_report :: "json \<Rightarrow> run" where
  "failed_details_report j =
     bind_run (getitem j (lit ''testResults'')) (\<lambda>tr.
     bind_run (py_iter tr) (\<lambda>suites.
     for_each failed_details_suite suites))"

section \<open>temp_decode.py\<close>

definition temp_decode_report :: "json \<Rightarrow> run" where
  "temp_decode_report data = bind_run (getitem data (lit ''numFailedTests'')) (\<lambda>f. print [f])"

section \<open>vitest-report-summary.py\<close>

text \<open>\<open>'... {} ... {}'.format(data[k1], data[k2], data[k3], data[k4])\<close>: the four
  subscripts are evaluated first, from left to right, then formatted.\<close>

definition summary_counts :: "string \<Rightarrow> json \<Rightarrow> str \<Rightarrow> str \<Rightarrow> str \<Rightarrow> str \<Rightarrow> run" where
  "summary_counts what data k1 k2 k3 k4 =
     bind_run (getitem data k1) (\<lambda>a.
     bind_run (getitem data k2) (\<lambda>b.
     bind_run (getitem data k3) (\<lambda>c.
     bind_run (getitem data k4) (\<lambda>d.
     bind_run (py_str a) (\<lambda>as.
     bind_run (py_str b) (\<lambda>bs.
     bind_run (py_str c) (\<lambda>cs.
     bind_run (py_str d) (\<lambda>ds.
     print [JStr (lit what @ as @ lit '' PASS '' @ bs @ lit '' FAIL '' @ cs
                  @ lit '' SKIPPED '' @ ds)]))))))))"

text \<open>The body of the inner loop: the dictionary appended for a failed assertion,
  nothing for another one.\<close>

definition summary_assertion :: "json \<Rightarrow> json \<Rightarrow> json list result" where
  "summary_assertion suite_name assertion =
     bind (getitem assertion (lit ''status'')) (\<lambda>st.
     if st = JStr (lit ''failed'') then
       bind (get_default assertion (lit ''failureMessages'') (JArr [])) (\<lambda>ms.
       bind (join_lines ms) (\<lambda>msg.
       bind (getitem assertion (lit ''fullName'')) (\<lambda>fn.
       Inr [JObj [(lit ''suite'', suite_name), (lit ''fullName'', fn),
                  (lit ''message'', JStr msg)]])))
     else Inr [])"

fun concatM :: "('a \<Rightarrow> 'b list result) \<Rightarrow> 'a list \<Rightarrow> 'b list result" where
  "concatM f [] = Inr []"
| "concatM f (x # xs) = bind (f x) (\<lambda>ys. bind (concatM f xs) (\<lambda>zs. Inr (ys @ zs)))"

definition summary_suite :: "json \<Rightarrow> json list result" where
  "summary_suite suite =
     bind (getitem suite (lit ''name'')) (\<lambda>suite_name.
     bind (getitem suite (lit ''assertionResults'')) (\<lambda>rs.
     bind (py_iter rs) (\<lambda>as. concatM (summary_assertion suite_name) as)))"

definition summary_failures :: "json \<Rightarrow> json list result" where
  "summary_failures data =
     bind (get_default data (lit ''testResults'') (JArr [])) (\<lambda>tr.
     bind (py_iter tr) (\<lambda>suites. concatM summary_suite suites))"

definition e2e_name :: str where
  "e2e_name = lit ''e2e-quality-orchestration.test.ts''"

text \<open>The lookup loop: \<open>break\<close> after the first suite whose name contains the substring.\<close>

fun summary_e2e :: "json list \<Rightarrow> run" where
  "summary_e2e [] = ([], None)"
| "summary_e2e (suite # rest) =
     bind_run (getitem suite (lit ''name'')) (\<lambda>n.
     bind_run (py_in e2e_name n) (\<lambda>hit.
     if hit then
       bind_run (getitem suite (lit ''name'')) (\<lambda>n'.
       bind_run (getitem suite (lit ''status'')) (\<lambda>st.
       print [JStr (lit ''  ''), n', st]))
     else summary_e2e rest))"

text \<open>\<open>first_line = failure['message'].split('\n', 1)[0] if failure['message'] else 'No message'\<close>\<close>

definition summary_first_line :: "json \<Rightarrow> str result" where
  "summary_first_line failure =
     bind (getitem failure (lit ''message'')) (\<lambda>c.
     bind (truthy c) (\<lambda>t.
     if t then
       bind (getitem failure (lit ''message'')) (\<lambda>m.
       case m of JStr s \<Rightarrow> (case split1 10 s of [] \<Rightarrow> Inl IndexError | p # ps \<Rightarrow> Inr p)
               | _ \<Rightarrow> Inl AttributeError)
     else Inr (lit ''No message'')))"

definition summary_failure_line :: "json \<Rightarrow> run" where
  "summary_failure_line failure =
     bind_run (summary_first_line failure) (\<lambda>first_line.
     bind_run (getitem failure (lit ''fullName'')) (\<lambda>fn.
     bind_run (py_str fn) (\<lambda>fns.
     print [JStr (lit ''- '' @ fns @ lit '': '' @ first_line)])))"

definition summary_report :: "json \<Rightarrow> run" where
  "summary_report data =
     seq (summary_counts ''TOTAL SUITES '' data (lit ''numTotalTestSuites'')
            (lit ''numPassedTestSuites'') (lit ''numFailedTestSuites'')
            (lit ''numPendingTestSuites''))
    (seq (summary_counts ''TOTAL TESTS '' data (lit ''numTotalTests'')
            (lit ''numPassedTests'') (lit ''numFailedTests'') (lit ''numPendingTests''))
    (bind_run (summary_failures data) (\<lambda>failures.
     seq (print [JStr (lit ''FAILURE COUNT''), JInt (int (length failures))])
    (seq (print [JStr (lit ''E2E FILE STATUS:'')])
    (seq (bind_run (get_default data (lit ''testResults'') (JArr [])) (\<lambda>tr.
          bind_run (py_iter tr) summary_e2e))
    (seq (print [JStr (10 # lit ''FAILURES:'')])
         (for_each summary_failure_line failures)))))))"

section \<open>Decoding the file\<close>

text \<open>
  \<open>Path.read_text(encoding, errors)\<close> reads the whole file, decodes it and translates
  the line endings \<open>\r\n\<close> and \<open>\r\<close> to \<open>\n\<close>. The decoders follow CPython's:
  under \<open>errors='strict'\<close> an ill-formed sequence raises \<open>UnicodeDecodeError\<close>, under
  \<open>errors='ignore'\<close> its bytes are dropped and decoding resumes after them. Bytes are
  read as numbers below 256.
\<close>

type_synonym byte = "8 word"

datatype errors = Strict | Ignore

definition is_cont :: "nat \<Rightarrow> bool" where
  "is_cont b = (128 \<le> b \<and> b < 192)"

text \<open>The second byte of a sequence of three or four bytes: a continuation byte, in the
  narrower range that excludes overlong forms, surrogates and code points above U+10FFFF.\<close>

definition second_ok :: "nat \<Rightarrow> nat \<Rightarrow> bool" where
  "second_ok b0 b1 =
     (is_cont b1 \<and>
      (if b0 = 224 then 160 \<le> b1
       else if b0 = 237 then b1 < 160
       else if b0 = 240 then 144 \<le> b1
       else if b0 = 244 then b1 < 144
       else True))"

text \<open>
  One step of the UTF-8 decoder at a lead byte \<open>b0 \<ge> 0x80\<close> followed by \<open>rest\<close>:
  a code point and the bytes after it; an invalid start or continuation byte, with the
  position where decoding resumes (the error covers the lead byte and the continuation
  bytes accepted so far); or the end of the data inside a sequence.
\<close>

datatype utf8_step = Decoded nat "nat list" | Invalid "nat list" | Truncated

definition utf8_next :: "nat \<Rightarrow> nat list \<Rightarrow> utf8_step" where
  "utf8_next b0 rest =
     (if b0 < 194 \<or> 245 \<le> b0 then Invalid rest
      else if b0 < 224 then
        (case rest of [] \<Rightarrow> Truncated
         | b1 # r1 \<Rightarrow>
             if is_cont b1 then Decoded ((b0 - 192) * 64 + (b1 - 128)) r1 else Invalid rest)
      else if b0 < 240 then
        (case rest of [] \<Rightarrow> Truncated
         | b1 # r1 \<Rightarrow>
             if \<not> second_ok b0 b1 then Invalid rest
             else (case r1 of [] \<Rightarrow> Truncated
                   | b2 # r2 \<Rightarrow>
                       if is_cont b2
                       then Decoded ((b0 - 224) * 4096 + (b1 - 128) * 64 + (b2 - 128)) r2
                       else Invalid r1))
      else
        (case rest of [] \<Rightarrow> Truncated
         | b1 # r1 \<Rightarrow>
             if \<not> second_ok b0 b1 then Invalid rest
             else (case r1 of [] \<Rightarrow> Truncated
                   | b2 # r2 \<Rightarrow>
                       if \<not> is_cont b2 then Invalid r1
                       else (case r2 of [] \<Rightarrow> Truncated
                             | b3 # r3 \<Rightarrow>
                                 if is_cont b3
                                 then Decoded ((b0 - 240) * 262144 + (b1 - 128) * 4096
                                               + (b2 - 128) * 64 + (b3 - 128)) r3
                                 else Invalid r2))))"

lemma utf8_next_Decoded_length: "utf8_next b0 rest = Decoded c r \<Longrightarrow> length r < length rest"
  by (auto simp: utf8_next_def split: if_splits list.splits)

lemma utf8_next_Invalid_length: "utf8_next b0 rest = Invalid r \<Longrightarrow> length r \<le> length rest"
  by (auto simp: utf8_next_def split: if_splits list.splits)

function utf8_decode :: "errors \<Rightarrow> nat list \<Rightarrow> str result" where
  "utf8_decode h [] = Inr []"
| "utf8_decode h (b0 # rest) =
     (if b0 < 128 then bind (utf8_decode h rest) (\<lambda>s. Inr (b0 # s))
      else (case utf8_next b0 rest of
              Decoded c r \<Rightarrow> bind (utf8_decode h r) (\<lambda>s. Inr (c # s))
            | Invalid r \<Rightarrow> (if h = Strict then Inl UnicodeDecodeError else utf8_decode h r)
            | Truncated \<Rightarrow> (if h = Strict then Inl UnicodeDecodeError else Inr [])))"
  by pat_completeness auto
termination
  by (relation "measure (\<lambda>(h, bs). length bs)")
     (auto dest: utf8_next_Decoded_length utf8_next_Invalid_length)

text \<open>\<open>utf-8-sig\<close>: a leading byte order mark EF BB BF is skipped, the rest is UTF-8.
  The decoder waits for three bytes before it decides, so a file that is only the
  beginning of a byte order mark (nothing, EF, or EF BB) is read as the empty text.\<close>

definition utf8_sig_decode :: "errors \<Rightarrow> nat list \<Rightarrow> str result" where
  "utf8_sig_decode h bs =
     (if length bs < 3 \<and> bs = take (length bs) [239, 187, 191] then Inr []
      else utf8_decode h (if take 3 bs = [239, 187, 191] then drop 3 bs else bs))"

text \<open>
  \<open>utf-16-le\<close>: code units of two bytes, low byte first. A high surrogate followed by a
  low one is one code point; a lone surrogate is an error of one unit; a high surrogate
  or a single byte at the end of the data is an error that reaches to the end.
\<close>

fun utf16le_decode :: "errors \<Rightarrow> nat list \<Rightarrow> str result" where
  "utf16le_decode h [] = Inr []"
| "utf16le_decode h [b] = (if h = Strict then Inl UnicodeDecodeError else Inr [])"
| "utf16le_decode h (lo # hi # rest) =
     (let u = hi * 256 + lo in
      if u < 55296 \<or> 57344 \<le> u then bind (utf16le_decode h rest) (\<lambda>s. Inr (u # s))
      else if 56320 \<le> u then
        (if h = Strict then Inl UnicodeDecodeError else utf16le_decode h rest)
      else
        (case rest of
           lo2 # hi2 # rest2 \<Rightarrow>
             (let u2 = hi2 * 256 + lo2 in
              if 56320 \<le> u2 \<and> u2 < 57344
              then bind (utf16le_decode h rest2)
                     (\<lambda>s. Inr ((65536 + (u - 55296) * 1024 + (u2 - 56320)) # s))
              else if h = Strict then Inl UnicodeDecodeError else utf16le_decode h rest)
         | _ \<Rightarrow> (if h = Strict then Inl UnicodeDecodeError else Inr [])))"

fun universal_newlines :: "str \<Rightarrow> str" where
  "universal_newlines [] = []"
| "universal_newlines [c] = [if c = 13 then 10 else c]"
| "universal_newlines (c # d # cs) =
     (if c = 13 \<and> d = 10 then 10 # universal_newlines cs
      else if c = 13 then 10 # universal_newlines (d # cs)
      else c # universal_newlines (d # cs))"

text \<open>The file system as the scripts see it, and the text written to standard output.\<close>

record world =
  files :: "str \<Rightarrow> byte list option"
  stdout :: str

definition read_text :: "world \<Rightarrow> str \<Rightarrow> (nat list \<Rightarrow> str result) \<Rightarrow> str result" where
  "read_text w path decode =
     (case files w path of
        None \<Rightarrow> Inl FileNotFoundError
      | Some bs \<Rightarrow> bind (decode (map unat bs)) (\<lambda>t. Inr (universal_newlines t)))"

section \<open>json.loads\<close>

definition is_ws :: "nat \<Rightarrow> bool" where
  "is_ws c = (c = 32 \<or> c = 9 \<or> c = 10 \<or> c = 13)"

definition skip_ws :: "str \<Rightarrow> str" where
  "skip_ws s = dropWhile is_ws s"

definition is_digit :: "nat \<Rightarrow> bool" where
  "is_digit c = (48 \<le> c \<and> c \<le> 57)"

definition hex_val :: "nat \<Rightarrow> nat option" where
  "hex_val c =
     (if 48 \<le> c \<and> c \<le> 57 then Some (c - 48)
      else if 65 \<le> c \<and> c \<le> 70 then Some (c - 55)
      else if 97 \<le> c \<and> c \<le> 102 then Some (c - 87)
      else None)"

fun hex4 :: "str \<Rightarrow> nat option" where
  "hex4 (a # b # c # d # r) =
     (case (hex_val a, hex_val b, hex_val c, hex_val d) of
        (Some x, Some y, Some z, Some w) \<Rightarrow> Some (x * 4096 + y * 256 + z * 16 + w)
      | _ \<Rightarrow> None)"
| "hex4 s = None"

definition backslash :: "nat \<Rightarrow> nat option" where
  "backslash e =
     (if e = 34 then Some 34 else if e = 92 then Some 92 else if e = 47 then Some 47
      else if e = 98 then Some 8 else if e = 102 then Some 12 else if e = 110 then Some 10
      else if e = 114 then Some 13 else if e = 116 then Some 9 else None)"

function scanstring :: "str \<Rightarrow> (str \<times> str) result" where
  "scanstring [] = Inl JSONDecodeError"
| "scanstring (c # cs) =
     (if c = 34 then Inr ([], cs)
      else if c = 92 then
        (case cs of
           [] \<Rightarrow> Inl JSONDecodeError
         | e # r \<Rightarrow>
             if e \<noteq> 117 then
               (case backslash e of
                  None \<Rightarrow> Inl JSONDecodeError
                | Some ch \<Rightarrow> bind (scanstring r) (\<lambda>(s, r'). Inr (ch # s, r')))
             else
               (case hex4 r of
                  None \<Rightarrow> Inl JSONDecodeError
                | Some uni \<Rightarrow>
                    if 55296 \<le> uni \<and> uni \<le> 56319 \<and> take 2 (drop 4 r) = [92, 117] then
                      (case hex4 (drop 6 r) of
                         None \<Rightarrow> Inl JSONDecodeError
                       | Some uni2 \<Rightarrow>
                           if 56320 \<le> uni2 \<and> uni2 \<le> 57343
                           then bind (scanstring (drop 10 r))
                                  (\<lambda>(s, r'). Inr ((65536 + (uni - 55296) * 1024 + (uni2 - 56320)) # s, r'))
                           else bind (scanstring (drop 4 r)) (\<lambda>(s, r'). Inr (uni # s, r')))
                    else bind (scanstring (drop 4 r)) (\<lambda>(s, r'). Inr (uni # s, r'))))
      else if c < 32 then Inl JSONDecodeError
      else bind (scanstring cs) (\<lambda>(s, r'). Inr (c # s, r')))"
  by pat_completeness auto
termination
  by (relation "measure length") auto


lemma bind_cong [fundef_cong]:
  "m = m' \<Longrightarrow> (\<And>x. m' = Inr x \<Longrightarrow> f x = f' x) \<Longrightarrow> bind m f = bind m' f'"
  by (auto simp: bind_def split: sum.splits)

lemma skip_ws_length: "length (skip_ws s) \<le> length s"
  by (simp add: skip_ws_def length_dropWhile_le)

lemma skip_ws_Cons_length: "skip_ws s = c # r \<Longrightarrow> length r < length s"
  using skip_ws_length [of s] by simp

lemma skip_ws_length_less: "length s < n \<Longrightarrow> length (skip_ws s) < n"
  using skip_ws_length [of s] by simp

lemma skip_ws_less_dest: "n < length (skip_ws x) \<Longrightarrow> n < length x"
  using skip_ws_length [of x] by simp

lemma skip_ws_double: "length x < n \<Longrightarrow> 2 * length (skip_ws x) < Suc (2 * n)"
  using skip_ws_length [of x] by simp

lemma skip_ws_double0: "2 * length (skip_ws x) < Suc (2 * length x)"
  using skip_ws_length [of x] by simp

lemma scanstring_length: "scanstring s = Inr (t, r) \<Longrightarrow> length r < length s"
proof (induction s arbitrary: t r rule: scanstring.induct)
  case 1
  then show ?case by simp
next
  case (2 c cs)
  show ?case
    using "2.prems" "2.IH"
    by (fastforce simp: bind_def split: if_splits list.splits option.splits sum.splits prod.splits)
qed


text \<open>The number pattern \<open>(-?(?:0|[1-9][0-9]*))(\.[0-9]+)?([eE][-+]?[0-9]+)?\<close>.\<close>

definition match_integer :: "str \<Rightarrow> (bool \<times> str \<times> str) option" where
  "match_integer s =
     (let neg = starts_with [45] s; s1 = (if neg then tl s else s) in
      case s1 of
        [] \<Rightarrow> None
      | d # r \<Rightarrow>
          if d = 48 then Some (neg, [48], r)
          else if is_digit d then Some (neg, d # takeWhile is_digit r, dropWhile is_digit r)
          else None)"

definition match_frac :: "str \<Rightarrow> str option" where
  "match_frac s =
     (case s of
        c # d # r \<Rightarrow> if c = 46 \<and> is_digit d then Some (dropWhile is_digit r) else None
      | _ \<Rightarrow> None)"

definition match_exp :: "str \<Rightarrow> str option" where
  "match_exp s =
     (case s of
        [] \<Rightarrow> None
      | c # r \<Rightarrow>
          if c = 101 \<or> c = 69 then
            (case (if starts_with [45] r \<or> starts_with [43] r then tl r else r) of
               [] \<Rightarrow> None
             | d # r2 \<Rightarrow> if is_digit d then Some (dropWhile is_digit r2) else None)
          else None)"

definition nat_of_digits :: "str \<Rightarrow> nat" where
  "nat_of_digits ds = foldl (\<lambda>a d. a * 10 + (d - 48)) 0 ds"

text \<open>A literal with a fraction or an exponent is a float, as are \<open>NaN\<close>,
  \<open>Infinity\<close> and \<open>-Infinity\<close>; an integer literal of more than 4300 digits raises
  \<open>ValueError\<close> (the limit of Python's conversion from text to \<open>int\<close>).\<close>

definition scan_number :: "str \<Rightarrow> (json \<times> str) result" where
  "scan_number s =
     (case match_integer s of
        None \<Rightarrow>
          if starts_with (lit ''NaN'') s then Inr (JFloat (lit ''NaN''), drop 3 s)
          else if starts_with (lit ''Infinity'') s then Inr (JFloat (lit ''Infinity''), drop 8 s)
          else if starts_with (lit ''-Infinity'') s then Inr (JFloat (lit ''-Infinity''), drop 9 s)
          else Inl JSONDecodeError
      | Some (neg, ds, r) \<Rightarrow>
          (let r1 = (case match_frac r of None \<Rightarrow> r | Some r' \<Rightarrow> r');
               r2 = (case match_exp r1 of None \<Rightarrow> r1 | Some r' \<Rightarrow> r')
           in if match_frac r \<noteq> None \<or> match_exp r1 \<noteq> None
              then Inr (JFloat (take (length s - length r2) s), r2)
              else if 4300 < length ds then Inl ValueError
              else Inr (JInt (if neg then - int (nat_of_digits ds) else int (nat_of_digits ds)),
                        r)))"

text \<open>\<open>d[k] = v\<close> on a dictionary, and \<open>dict(pairs)\<close>: a later pair replaces the value of
  an earlier one with the same key.\<close>

fun setitem :: "(str \<times> json) list \<Rightarrow> str \<Rightarrow> json \<Rightarrow> (str \<times> json) list" where
  "setitem [] k v = [(k, v)]"
| "setitem ((k', v') # d) k v = (if k' = k then (k, v) # d else (k', v') # setitem d k v)"

definition dict_of :: "(str \<times> json) list \<Rightarrow> (str \<times> json) list" where
  "dict_of pairs = foldl (\<lambda>d kv. setitem d (fst kv) (snd kv)) [] pairs"

function scan_once :: "str \<Rightarrow> (json \<times> str) result"
  and json_object :: "(str \<times> json) list \<Rightarrow> str \<Rightarrow> (json \<times> str) result"
  and json_array :: "json list \<Rightarrow> str \<Rightarrow> (json \<times> str) result"
where
  "scan_once s =
     (case s of
        [] \<Rightarrow> Inl JSONDecodeError
      | c # cs \<Rightarrow>
          if c = 34 then bind (scanstring cs) (\<lambda>(t, r). Inr (JStr t, r))
          else if c = 123 then
            (case skip_ws cs of
               [] \<Rightarrow> Inl JSONDecodeError
             | d # r \<Rightarrow>
                 if d = 125 then Inr (JObj [], r)
                 else if d = 34 then json_object [] r
                 else Inl JSONDecodeError)
          else if c = 91 then
            (if starts_with [93] (skip_ws cs) then Inr (JArr [], tl (skip_ws cs))
             else json_array [] (skip_ws cs))
          else if starts_with (lit ''null'') s then Inr (JNull, drop 4 s)
          else if starts_with (lit ''true'') s then Inr (JBool True, drop 4 s)
          else if starts_with (lit ''false'') s then Inr (JBool False, drop 5 s)
          else scan_number s)"
| "json_object pairs s =
     bind (scanstring s) (\<lambda>(key, r1).
     case skip_ws r1 of
       [] \<Rightarrow> Inl JSONDecodeError
     | d # r2 \<Rightarrow>
         if d \<noteq> 58 then Inl JSONDecodeError
         else
           bind (scan_once (skip_ws r2)) (\<lambda>(v, r4).
           if length r4 < length (skip_ws r2) then
             (case skip_ws r4 of
                [] \<Rightarrow> Inl JSONDecodeError
              | e # r5 \<Rightarrow>
                  if e = 125 then Inr (JObj (dict_of (pairs @ [(key, v)])), r5)
                  else if e = 44 then
                    (case skip_ws r5 of
                       [] \<Rightarrow> Inl JSONDecodeError
                     | q # r6 \<Rightarrow>
                         if q = 34 then json_object (pairs @ [(key, v)]) r6
                         else Inl JSONDecodeError)
                  else Inl JSONDecodeError)
           else Inl JSONDecodeError))"
| "json_array acc s =
     bind (scan_once s) (\<lambda>(v, r1).
     if length r1 < length s then
       (case skip_ws r1 of
          [] \<Rightarrow> Inl JSONDecodeError
        | d # r2 \<Rightarrow>
            if d = 93 then Inr (JArr (acc @ [v]), r2)
            else if d = 44 then json_array (acc @ [v]) (skip_ws r2)
            else Inl JSONDecodeError)
     else Inl JSONDecodeError)"
  by pat_completeness auto
termination
  apply (relation "measure (\<lambda>x. case x of Inl s \<Rightarrow> 2 * length s
                                 | Inr (Inl (pairs, s)) \<Rightarrow> 2 * length s + 1
                                 | Inr (Inr (acc, s)) \<Rightarrow> 2 * length s + 1)")
  apply (auto simp: skip_ws_double0 dest!: scanstring_length skip_ws_Cons_length skip_ws_less_dest
              intro: skip_ws_length_less skip_ws_double)
  done

definition loads :: "str \<Rightarrow> json result" where
  "loads s =
     (if starts_with [65279] s then Inl JSONDecodeError
      else bind (scan_once (skip_ws s)) (\<lambda>(obj, r).
           if skip_ws r = [] then Inr obj else Inl JSONDecodeError))"

section \<open>The scripts as programs on the file system\<close>

definition load :: "world \<Rightarrow> str \<Rightarrow> (nat list \<Rightarrow> str result) \<Rightarrow> json result" where
  "load w path decode = bind (read_text w path decode) loads"

text \<open>A script loads the report and runs its body: an exception while loading ends the
  run before anything is printed; the body's text is appended to standard output. The
  files are only read.\<close>

definition run_script :: "json result \<Rightarrow> (json \<Rightarrow> run) \<Rightarrow> world \<Rightarrow> world \<times> error option" where
  "run_script loaded body w =
     (case loaded of
        Inl e \<Rightarrow> (w, Some e)
      | Inr j \<Rightarrow> (w\<lparr>stdout := stdout w @ fst (body j)\<rparr>, snd (body j)))"

definition check_full :: "world \<Rightarrow> world \<times> error option" where
  "check_full w =
     run_script (load w (lit ''vitest-results.json'') (utf8_decode Ignore)) check_full_report w"

definition failed_details :: "world \<Rightarrow> world \<times> error option" where
  "failed_details w =
     run_script (load w (lit ''vitest-results.json'') (utf8_decode Ignore)) failed_details_report w"

definition temp_decode :: "world \<Rightarrow> world \<times> error option" where
  "temp_decode w =
     run_script (load w (lit ''vitest-results.json'') (utf16le_decode Ignore)) temp_decode_report w"

definition vitest_report_summary :: "world \<Rightarrow> world \<times> error option" where
  "vitest_report_summary w =
     run_script (load w (lit ''vitest-results-clean.json'') (utf8_sig_decode Strict))
       summary_report w"

section \<open>json.dumps\<close>

text \<open>\<open>json.dumps\<close> with its default arguments: every character outside printable ASCII
  is escaped, items are separated by \<open>", "\<close> and a key from its value by \<open>": "\<close>.\<close>

definition hex_digit :: "nat \<Rightarrow> nat" where
  "hex_digit d = (if d < 10 then 48 + d else 87 + d)"

definition hex4_text :: "nat \<Rightarrow> str" where
  "hex4_text n =
     [hex_digit (n div 4096 mod 16), hex_digit (n div 256 mod 16),
      hex_digit (n div 16 mod 16), hex_digit (n mod 16)]"

definition escape_char :: "nat \<Rightarrow> str" where
  "escape_char c =
     (if c = 92 then [92, 92] else if c = 34 then [92, 34]
      else if c = 8 then [92, 98] else if c = 12 then [92, 102]
      else if c = 10 then [92, 110] else if c = 13 then [92, 114]
      else if c = 9 then [92, 116]
      else if 32 \<le> c \<and> c \<le> 126 then [c]
      else if c < 65536 then [92, 117] @ hex4_text c
      else [92, 117] @ hex4_text (55296 + (c - 65536) div 1024 mod 1024)
           @ [92, 117] @ hex4_text (56320 + (c - 65536) mod 1024))"

definition encode_basestring_ascii :: "str \<Rightarrow> str" where
  "encode_basestring_ascii s = 34 # concat (map escape_char s) @ [34]"

lemma mapM_cong [fundef_cong]:
  "xs = ys \<Longrightarrow> (\<And>x. x \<in> set ys \<Longrightarrow> f x = g x) \<Longrightarrow> mapM f xs = mapM g ys"
  by (induction ys arbitrary: xs) (auto simp: bind_def split: sum.splits)

fun dumps :: "json \<Rightarrow> str result" where
  "dumps JNull = Inr (lit ''null'')"
| "dumps (JBool b) = Inr (if b then lit ''true'' else lit ''false'')"
| "dumps (JInt i) = Inr (str_int i)"
| "dumps (JFloat l) = Inl Unmodelled"
| "dumps (JStr s) = Inr (encode_basestring_ascii s)"
| "dumps (JArr xs) = bind (mapM dumps xs) (\<lambda>ts. Inr ([91] @ join (lit '', '') ts @ [93]))"
| "dumps (JObj kvs) =
     bind (mapM (\<lambda>kv. bind (dumps (snd kv))
                   (\<lambda>t. Inr (encode_basestring_ascii (fst kv) @ lit '': '' @ t))) kvs)
       (\<lambda>ts. Inr ([123] @ join (lit '', '') ts @ [125]))"

section \<open>The report as the specification describes it\<close>

text \<open>
  The specification's data model, read off a loaded value: a report has counters and
  suites, a suite has a name, a status and assertions, an assertion has a full name, a
  status and failure messages. These definitions follow the specification's words; the
  theorems compare them with what the scripts compute.
\<close>

definition field :: "json \<Rightarrow> string \<Rightarrow> json option" where
  "field v k = (case v of JObj kvs \<Rightarrow> map_of kvs (lit k) | _ \<Rightarrow> None)"

definition suites_of :: "json \<Rightarrow> json list" where
  "suites_of data = (case field data ''testResults'' of Some (JArr ss) \<Rightarrow> ss | _ \<Rightarrow> [])"

definition assertions_of :: "json \<Rightarrow> json list" where
  "assertions_of suite = (case field suite ''assertionResults'' of Some (JArr as) \<Rightarrow> as | _ \<Rightarrow> [])"

definition str_field :: "json \<Rightarrow> string \<Rightarrow> str" where
  "str_field v k = (case field v k of Some (JStr s) \<Rightarrow> s | _ \<Rightarrow> [])"

definition messages_of :: "json \<Rightarrow> str list" where
  "messages_of a =
     (case field a ''failureMessages'' of
        Some (JArr ms) \<Rightarrow> map (\<lambda>m. case m of JStr s \<Rightarrow> s | _ \<Rightarrow> []) ms
      | _ \<Rightarrow> [])"

definition is_failed :: "json \<Rightarrow> bool" where
  "is_failed a = (field a ''status'' = Some (JStr (lit ''failed'')))"

definition failed_assertions :: "json \<Rightarrow> json list" where
  "failed_assertions suite = filter is_failed (assertions_of suite)"

text \<open>\<open>sum(len([a for a in suite.assertions if a.status=='failed']) for suite in report.suites)\<close>\<close>

definition spec_failure_count :: "json \<Rightarrow> nat" where
  "spec_failure_count data = sum_list (map (\<lambda>s. length (failed_assertions s)) (suites_of data))"

text \<open>The first line of a text: what precedes its first newline.\<close>

definition first_line :: "str \<Rightarrow> str" where
  "first_line s = takeWhile (\<lambda>c. c \<noteq> 10) s"

definition first_message_line :: "json \<Rightarrow> str" where
  "first_message_line a = (case messages_of a of [] \<Rightarrow> [] | m # ms \<Rightarrow> first_line m)"

text \<open>Well-formed reports: every field of the data model is present with its type.\<close>

fun is_str :: "json \<Rightarrow> bool" where
  "is_str (JStr s) = True"
| "is_str v = False"

fun is_int :: "json \<Rightarrow> bool" where
  "is_int (JInt i) = True"
| "is_int v = False"

fun is_dict :: "json \<Rightarrow> bool" where
  "is_dict (JObj kvs) = True"
| "is_dict v = False"

definition has :: "(json \<Rightarrow> bool) \<Rightarrow> json \<Rightarrow> string \<Rightarrow> bool" where
  "has p v k = (case field v k of Some x \<Rightarrow> p x | None \<Rightarrow> False)"

definition wf_assertion :: "json \<Rightarrow> bool" where
  "wf_assertion a =
     (has is_str a ''fullName'' \<and> has is_str a ''status'' \<and>
      (case field a ''failureMessages'' of
         None \<Rightarrow> True
       | Some (JArr ms) \<Rightarrow> list_all is_str ms
       | Some _ \<Rightarrow> False))"

definition wf_suite :: "json \<Rightarrow> bool" where
  "wf_suite s =
     (has is_str s ''name'' \<and> has is_str s ''status'' \<and>
      (case field s ''assertionResults'' of
         Some (JArr as) \<Rightarrow> list_all wf_assertion as
       | _ \<Rightarrow> False))"

definition wf_report :: "json \<Rightarrow> bool" where
  "wf_report data =
     (has is_int data ''numTotalTestSuites'' \<and> has is_int data ''numPassedTestSuites'' \<and>
      has is_int data ''numFailedTestSuites'' \<and> has is_int data ''numPendingTestSuites'' \<and>
      has is_int data ''numTotalTests'' \<and> has is_int data ''numPassedTests'' \<and>
      has is_int data ''numFailedTests'' \<and> has is_int data ''numPendingTests'' \<and>
      (case field data ''testResults'' of
         Some (JArr ss) \<Rightarrow> list_all wf_suite ss
       | _ \<Rightarrow> False))"

section \<open>The expected output, from the data model\<close>

definition failure_entry :: "json \<Rightarrow> json \<Rightarrow> json" where
  "failure_entry suite a =
     JObj [(lit ''suite'', JStr (str_field suite ''name'')),
           (lit ''fullName'', JStr (str_field a ''fullName'')),
           (lit ''message'', JStr (join [10] (messages_of a)))]"

definition spec_failures :: "json \<Rightarrow> json list" where
  "spec_failures data =
     concat (map (\<lambda>s. map (failure_entry s) (failed_assertions s)) (suites_of data))"

definition int_field :: "json \<Rightarrow> string \<Rightarrow> int" where
  "int_field v k = (case field v k of Some (JInt i) \<Rightarrow> i | _ \<Rightarrow> 0)"

definition counts_line :: "string \<Rightarrow> json \<Rightarrow> string \<Rightarrow> string \<Rightarrow> string \<Rightarrow> string \<Rightarrow> str" where
  "counts_line what data k1 k2 k3 k4 =
     lit what @ str_int (int_field data k1) @ lit '' PASS '' @ str_int (int_field data k2)
     @ lit '' FAIL '' @ str_int (int_field data k3) @ lit '' SKIPPED '' @ str_int (int_field data k4)
     @ [10]"

definition e2e_line :: "json \<Rightarrow> str" where
  "e2e_line s = lit ''   '' @ str_field s ''name'' @ [32] @ str_field s ''status'' @ [10]"

definition e2e_match :: "json list \<Rightarrow> json option" where
  "e2e_match ss = find (\<lambda>s. contains e2e_name (str_field s ''name'')) ss"

definition spec_e2e :: "json list \<Rightarrow> str" where
  "spec_e2e ss = (case e2e_match ss of None \<Rightarrow> [] | Some s \<Rightarrow> e2e_line s)"

definition failure_line :: "json \<Rightarrow> str" where
  "failure_line a =
     lit ''- '' @ str_field a ''fullName'' @ lit '': ''
     @ (if join [10] (messages_of a) = [] then lit ''No message'' else first_message_line a)
     @ [10]"

definition summary_head :: "json \<Rightarrow> str" where
  "summary_head data =
     counts_line ''TOTAL SUITES '' data ''numTotalTestSuites'' ''numPassedTestSuites''
       ''numFailedTestSuites'' ''numPendingTestSuites''
     @ counts_line ''TOTAL TESTS '' data ''numTotalTests'' ''numPassedTests''
         ''numFailedTests'' ''numPendingTests''"

definition summary_failure_lines :: "json \<Rightarrow> str" where
  "summary_failure_lines data =
     concat (map (\<lambda>s. concat (map failure_line (failed_assertions s))) (suites_of data))"

definition summary_output :: "json \<Rightarrow> str" where
  "summary_output data =
     summary_head data
     @ lit ''FAILURE COUNT '' @ str_int (int (spec_failure_count data)) @ [10]
     @ lit ''E2E FILE STATUS:'' @ [10]
     @ spec_e2e (suites_of data)
     @ [10] @ lit ''FAILURES:'' @ [10]
     @ summary_failure_lines data"

definition totals_line :: "json \<Rightarrow> str" where
  "totals_line data =
     lit ''total='' @ str_int (int_field data ''numTotalTests'')
     @ lit '' passed='' @ str_int (int_field data ''numPassedTests'')
     @ lit '' failed='' @ str_int (int_field data ''numFailedTests'')
     @ lit '' failedSuites='' @ str_int (int_field data ''numFailedTestSuites'') @ [10]"

definition failing_suite_line :: "json \<Rightarrow> str" where
  "failing_suite_line s =
     (if str_field s ''status'' = lit ''failed''
      then str_field s ''name'' @ lit '' :: '' @ str_int (int (length (failed_assertions s))) @ [10]
      else [])"



text \<open>The strings of a report that the scripts print can be written to standard output.\<close>

definition encodable_assertion :: "json \<Rightarrow> bool" where
  "encodable_assertion a =
     (encodable (str_field a ''fullName'') \<and> list_all encodable (messages_of a))"

definition encodable_suite :: "json \<Rightarrow> bool" where
  "encodable_suite s =
     (encodable (str_field s ''name'') \<and> encodable (str_field s ''status'') \<and>
      list_all encodable_assertion (assertions_of s))"

definition encodable_report :: "json \<Rightarrow> bool" where
  "encodable_report data = list_all encodable_suite (suites_of data)"

definition has_counters :: "json \<Rightarrow> bool" where
  "has_counters data =
     (has is_int data ''numTotalTestSuites'' \<and> has is_int data ''numPassedTestSuites'' \<and>
      has is_int data ''numFailedTestSuites'' \<and> has is_int data ''numPendingTestSuites'' \<and>
      has is_int data ''numTotalTests'' \<and> has is_int data ''numPassedTests'' \<and>
      has is_int data ''numFailedTests'' \<and> has is_int data ''numPendingTests'')"

section \<open>Example reports\<close>

definition assertion_obj :: "string \<Rightarrow> string \<Rightarrow> string list \<Rightarrow> json" where
  "assertion_obj fn st ms =
     JObj [(lit ''fullName'', JStr (lit fn)), (lit ''status'', JStr (lit st)),
           (lit ''failureMessages'', JArr (map (\<lambda>m. JStr (lit m)) ms))]"

definition suite_obj :: "string \<Rightarrow> string \<Rightarrow> json list \<Rightarrow> json" where
  "suite_obj n st as =
     JObj [(lit ''name'', JStr (lit n)), (lit ''status'', JStr (lit st)),
           (lit ''assertionResults'', JArr as)]"

definition report_obj :: "int \<Rightarrow> int \<Rightarrow> int \<Rightarrow> int \<Rightarrow> int \<Rightarrow> int \<Rightarrow> int \<Rightarrow> int \<Rightarrow> json list \<Rightarrow> json" where
  "report_obj ts ps fs ks t p f k suites =
     JObj [(lit ''numTotalTestSuites'', JInt ts), (lit ''numPassedTestSuites'', JInt ps),
           (lit ''numFailedTestSuites'', JInt fs), (lit ''numPendingTestSuites'', JInt ks),
           (lit ''numTotalTests'', JInt t), (lit ''numPassedTests'', JInt p),
           (lit ''numFailedTests'', JInt f), (lit ''numPendingTests'', JInt k),
           (lit ''testResults'', JArr suites)]"

definition example_passing_suite :: json where
  "example_passing_suite =
     suite_obj ''a/b/e2e-quality-orchestration.test.ts'' ''passed''
       [assertion_obj ''t1'' ''passed'' []]"

definition example_failing_suite :: json where
  "example_failing_suite =
     suite_obj ''x.test.ts'' ''failed''
       [assertion_obj ''t2'' ''failed'' [''boom'' @ [CHR 0x0A] @ ''trace''],
        assertion_obj ''t3'' ''failed'' []]"

definition example_report :: json where
  "example_report = report_obj 2 1 1 0 3 1 2 0 [example_passing_suite, example_failing_suite]"








section \<open>Proofs\<close>

lemma bind_Inr [simp]: "bind (Inr x) f = f x"
  by (simp add: bind_def)

lemma bind_Inl [simp]: "bind (Inl e) f = Inl e"
  by (simp add: bind_def)

lemma seq_None [simp]: "seq (a, None) b = (a @ fst b, snd b)"
  by (simp add: seq_def)

lemma seq_Some [simp]: "seq (a, Some e) b = (a, Some e)"
  by (simp add: seq_def)

lemma seq_empty [simp]: "seq ([], None) b = b"
  by (simp add: seq_def)


lemma bind_run_Inr [simp]: "bind_run (Inr x) f = f x"
  by (simp add: bind_run_def)

lemma bind_run_Inl [simp]: "bind_run (Inl e) f = ([], Some e)"
  by (simp add: bind_run_def)

lemma lit_eq_iff [simp]: "lit a = lit b \<longleftrightarrow> a = b"
proof -
  have "inj (of_char :: char \<Rightarrow> nat)"
    by (rule injI) simp
  then show ?thesis
    by (simp add: lit_def inj_map_eq_map)
qed

lemma lit_append: "lit (a @ b) = lit a @ lit b"
  by (simp add: lit_def)

lemma getitem_field: "field v k = Some x \<Longrightarrow> getitem v (lit k) = Inr x"
  by (cases v) (simp_all add: field_def)

lemma get_default_field: "field v k = Some x \<Longrightarrow> get_default v (lit k) d = Inr x"
  by (cases v) (simp_all add: field_def)


lemma get_default_missing:
  "is_dict v \<Longrightarrow> field v k = None \<Longrightarrow> get_default v (lit k) d = Inr d"
  by (cases v) (simp_all add: field_def)


lemma has_is_dict: "has p v k \<Longrightarrow> is_dict v"
  by (cases v) (simp_all add: has_def field_def)

lemma hasE: "has p v k \<Longrightarrow> (\<And>x. field v k = Some x \<Longrightarrow> p x \<Longrightarrow> thesis) \<Longrightarrow> thesis"
  by (auto simp: has_def split: option.splits)

lemma is_strE: "is_str v \<Longrightarrow> (\<And>s. v = JStr s \<Longrightarrow> thesis) \<Longrightarrow> thesis"
  by (cases v) simp_all

lemma is_intE: "is_int v \<Longrightarrow> (\<And>i. v = JInt i \<Longrightarrow> thesis) \<Longrightarrow> thesis"
  by (cases v) simp_all

lemma has_strE:
  "has is_str v k \<Longrightarrow> (\<And>s. field v k = Some (JStr s) \<Longrightarrow> str_field v k = s \<Longrightarrow> thesis) \<Longrightarrow> thesis"
  by (auto simp: str_field_def elim!: hasE is_strE)

lemma has_int_fieldE:
  "has is_int v k \<Longrightarrow> (field v k = Some (JInt (int_field v k)) \<Longrightarrow> thesis) \<Longrightarrow> thesis"
  by (auto simp: int_field_def elim!: hasE is_intE)

subsection \<open>Text that standard output can encode\<close>

lemma encodable_Nil [simp]: "encodable []"
  by (simp add: encodable_def)

lemma encodable_Cons [simp]: "encodable (c # s) \<longleftrightarrow> \<not> is_surrogate c \<and> encodable s"
  by (simp add: encodable_def)

lemma encodable_append [simp]: "encodable (a @ b) \<longleftrightarrow> encodable a \<and> encodable b"
  by (simp add: encodable_def)

lemma not_surrogate_small [simp]: "c < 55296 \<Longrightarrow> \<not> is_surrogate c"
  by (simp add: is_surrogate_def)

lemma of_char_less_256: "(of_char c :: nat) < 256"
  by (metis of_char_mod_256 mod_less_divisor zero_less_numeral)

lemma encodable_lit [simp]: "encodable (lit cs)"
proof -
  have "\<not> is_surrogate (of_char c)" for c :: char
    using of_char_less_256 [of c] unfolding is_surrogate_def by linarith
  then show ?thesis
    by (simp add: encodable_def lit_def list_all_iff)
qed

lemma encodable_digits [simp]: "encodable (digits n)"
proof (induction n rule: digits.induct)
  case (1 n)
  show ?case
  proof (cases "n < 10")
    case True
    then show ?thesis by (subst digits.simps) simp
  next
    case False
    have "n mod 10 < 10" by simp
    then have "48 + n mod 10 < 55296" by linarith
    with False 1 show ?thesis by (subst digits.simps) simp
  qed
qed

lemma encodable_str_int [simp]: "encodable (str_int i)"
  by (simp add: str_int_def)

lemma encodable_first_line: "encodable s \<Longrightarrow> encodable (first_line s)"
  by (induction s) (simp_all add: first_line_def)

lemma encodable_join: "list_all encodable ms \<Longrightarrow> encodable (join [10] ms)"
  by (induction "[10::nat]" ms rule: join.induct) simp_all

subsection \<open>print\<close>

lemma stdout_write_encodable [simp]: "encodable s \<Longrightarrow> stdout_write s = (s, None)"
  by (simp add: stdout_write_def)

lemma print_str:
  "print [JStr a] = (if encodable a then (a @ [10], None) else ([], Some UnicodeEncodeError))"
  by (simp add: print_def stdout_write_def)

lemma print_str_encodable: "encodable a \<Longrightarrow> print [JStr a] = (a @ [10], None)"
  by (simp add: print_str)


lemma print_str_int:
  "encodable a \<Longrightarrow> print [JStr a, JInt i] = (a @ 32 # str_int i @ [10], None)"
  by (simp add: print_def)


lemma print_str3:
  "encodable a \<Longrightarrow> encodable b \<Longrightarrow> encodable c
   \<Longrightarrow> print [JStr a, JStr b, JStr c] = (a @ 32 # b @ 32 # c @ [10], None)"
  by (simp add: print_def)

lemma lit_indent: "lit ''  '' @ 32 # s = lit ''   '' @ s"
  by (simp add: lit_def)


lemma lit_count: "lit ''FAILURE COUNT'' @ 32 # s = lit ''FAILURE COUNT '' @ s"
  by (simp add: lit_def)

subsection \<open>The failure list of vitest-report-summary.py\<close>

lemma mapM_as_str:
  "list_all is_str ms \<Longrightarrow> mapM as_str ms = Inr (map (\<lambda>m. case m of JStr s \<Rightarrow> s | _ \<Rightarrow> []) ms)"
  by (induction ms) (auto elim!: is_strE)

lemma concatM_map: "list_all (\<lambda>x. f x = Inr (g x)) xs \<Longrightarrow> concatM f xs = Inr (concat (map g xs))"
  by (induction xs) simp_all

lemma length_spec_failures: "length (spec_failures data) = spec_failure_count data"
  by (simp add: spec_failures_def spec_failure_count_def length_concat comp_def)

lemma wf_assertion_obj: "wf_assertion a \<Longrightarrow> is_dict a"
  by (auto simp: wf_assertion_def dest: has_is_dict)

lemma join_lines_wf:
  assumes "wf_assertion a"
  shows "bind (get_default a (lit ''failureMessages'') (JArr [])) join_lines
         = Inr (join [10] (messages_of a))"
proof (cases "field a ''failureMessages''")
  case None
  then show ?thesis
    using wf_assertion_obj [OF assms]
    by (simp add: get_default_missing messages_of_def join_lines_def)
next
  case (Some m)
  with assms obtain ms where m: "m = JArr ms" and ms: "list_all is_str ms"
    by (auto simp: wf_assertion_def split: json.splits)
  have "get_default a (lit ''failureMessages'') (JArr []) = Inr (JArr ms)"
    using Some m by (simp add: get_default_field)
  then show ?thesis
    using Some m ms
    by (simp add: messages_of_def join_lines_def mapM_as_str)
qed

lemma summary_assertion_wf:
  assumes "wf_assertion a"
  shows "summary_assertion (JStr (str_field suite ''name'')) a
         = Inr (if is_failed a then [failure_entry suite a] else [])"
proof -
  from assms obtain fn st where fn: "field a ''fullName'' = Some (JStr fn)" "str_field a ''fullName'' = fn"
    and st: "field a ''status'' = Some (JStr st)"
    by (auto simp: wf_assertion_def elim!: has_strE)
  have "bind (get_default a (lit ''failureMessages'') (JArr [])) (\<lambda>ms. bind (join_lines ms) f)
        = f (join [10] (messages_of a))" for f :: "str \<Rightarrow> json list result"
    using join_lines_wf [OF assms]
    by (cases "get_default a (lit ''failureMessages'') (JArr [])") simp_all
  then show ?thesis
    using fn st
    by (simp add: summary_assertion_def getitem_field is_failed_def failure_entry_def)
qed

lemma summary_suite_wf:
  assumes "wf_suite s"
  shows "summary_suite s = Inr (map (failure_entry s) (failed_assertions s))"
proof -
  from assms obtain n as where n: "field s ''name'' = Some (JStr n)" "str_field s ''name'' = n"
    and as: "field s ''assertionResults'' = Some (JArr as)" "list_all wf_assertion as"
    by (auto simp: wf_suite_def elim!: has_strE split: option.splits json.splits)
  have "list_all (\<lambda>a. summary_assertion (JStr n) a = Inr (if is_failed a then [failure_entry s a] else [])) as"
    using as(2) summary_assertion_wf [of _ s] n(2)
    by (simp add: list_all_iff)
  then have "concatM (summary_assertion (JStr n)) as
             = Inr (concat (map (\<lambda>a. if is_failed a then [failure_entry s a] else []) as))"
    by (rule concatM_map)
  moreover have "concat (map (\<lambda>a. if is_failed a then [failure_entry s a] else []) as)
                 = map (failure_entry s) (filter is_failed as)"
    by (induction as) simp_all
  ultimately show ?thesis
    using n as(1) by (simp add: summary_suite_def getitem_field failed_assertions_def assertions_of_def)
qed

lemma wf_report_suites:
  assumes "wf_report data"
  shows "field data ''testResults'' = Some (JArr (suites_of data))" "list_all wf_suite (suites_of data)"
  using assms by (auto simp: wf_report_def suites_of_def split: option.splits json.splits)

lemma summary_failures_wf:
  assumes "wf_report data"
  shows "summary_failures data = Inr (spec_failures data)"
proof -
  have "list_all (\<lambda>s. summary_suite s = Inr (map (failure_entry s) (failed_assertions s))) (suites_of data)"
    using wf_report_suites(2) [OF assms] summary_suite_wf by (simp add: list_all_iff)
  then have "concatM summary_suite (suites_of data) = Inr (spec_failures data)"
    unfolding spec_failures_def by (rule concatM_map)
  then show ?thesis
    using wf_report_suites(1) [OF assms]
    by (simp add: summary_failures_def get_default_field)
qed

subsection \<open>The sections of vitest-report-summary.py's output\<close>

lemma summary_counts_int:
  assumes "has is_int data k1" "has is_int data k2" "has is_int data k3" "has is_int data k4"
  shows "summary_counts what data (lit k1) (lit k2) (lit k3) (lit k4)
         = (counts_line what data k1 k2 k3 k4, None)"
  using assms
  by (auto elim!: has_int_fieldE
      simp: summary_counts_def getitem_field counts_line_def print_str_encodable)

lemma summary_head_printed:
  assumes "has_counters data"
  shows "summary_report data
         = seq (summary_head data, None)
             (bind_run (summary_failures data) (\<lambda>failures.
              seq (print [JStr (lit ''FAILURE COUNT''), JInt (int (length failures))])
             (seq (print [JStr (lit ''E2E FILE STATUS:'')])
             (seq (bind_run (get_default data (lit ''testResults'') (JArr [])) (\<lambda>tr.
                   bind_run (py_iter tr) summary_e2e))
             (seq (print [JStr (10 # lit ''FAILURES:'')])
                  (for_each summary_failure_line failures))))))"
proof -
  have suites: "summary_counts ''TOTAL SUITES '' data (lit ''numTotalTestSuites'')
                  (lit ''numPassedTestSuites'') (lit ''numFailedTestSuites'')
                  (lit ''numPendingTestSuites'')
                = (counts_line ''TOTAL SUITES '' data ''numTotalTestSuites''
                        ''numPassedTestSuites'' ''numFailedTestSuites'' ''numPendingTestSuites'', None)"
    using assms by (intro summary_counts_int) (simp_all add: has_counters_def)
  have tests: "summary_counts ''TOTAL TESTS '' data (lit ''numTotalTests'')
                  (lit ''numPassedTests'') (lit ''numFailedTests'') (lit ''numPendingTests'')
                = (counts_line ''TOTAL TESTS '' data ''numTotalTests'' ''numPassedTests''
                        ''numFailedTests'' ''numPendingTests'', None)"
    using assms by (intro summary_counts_int) (simp_all add: has_counters_def)
  show ?thesis
    unfolding summary_report_def suites tests
    by (simp add: summary_head_def seq_def split: option.splits)
qed

lemma wf_report_counters: "wf_report data \<Longrightarrow> has_counters data"
  by (simp add: wf_report_def has_counters_def)

lemma print_count:
  "print [JStr (lit ''FAILURE COUNT''), JInt n] = (lit ''FAILURE COUNT '' @ str_int n @ [10], None)"
  by (simp add: print_str_int lit_count)

lemma summary_e2e_wf:
  "list_all wf_suite ss \<Longrightarrow>
   summary_e2e ss
   = (case e2e_match ss of
        None \<Rightarrow> ([], None)
      | Some s \<Rightarrow> print [JStr (lit ''  ''), JStr (str_field s ''name''),
                          JStr (str_field s ''status'')])"
proof (induction ss)
  case Nil
  then show ?case by (simp add: e2e_match_def)
next
  case (Cons s ss)
  from Cons.prems obtain n st where n: "field s ''name'' = Some (JStr n)" "str_field s ''name'' = n"
    and st: "field s ''status'' = Some (JStr st)" "str_field s ''status'' = st"
    by (auto simp: wf_suite_def elim!: has_strE)
  show ?case
  proof (cases "contains e2e_name n")
    case True
    then show ?thesis
      using n st by (simp add: getitem_field e2e_match_def)
  next
    case False
    then show ?thesis
      using n Cons by (simp add: getitem_field e2e_match_def)
  qed
qed

lemma e2e_match_member: "e2e_match ss = Some s \<Longrightarrow> s \<in> set ss"
  by (auto simp: e2e_match_def find_Some_iff)

lemma summary_e2e_encodable:
  assumes "list_all wf_suite ss" "list_all encodable_suite ss"
  shows "summary_e2e ss = (spec_e2e ss, None)"
proof (cases "e2e_match ss")
  case None
  then show ?thesis
    using summary_e2e_wf [OF assms(1)] by (simp add: spec_e2e_def)
next
  case (Some s)
  then have "encodable_suite s"
    using assms(2) e2e_match_member by (auto simp: list_all_iff)
  then show ?thesis
    using summary_e2e_wf [OF assms(1)] Some
    by (simp add: spec_e2e_def e2e_line_def encodable_suite_def print_str3 lit_indent)
qed


lemma for_each_append: "for_each body (xs @ ys) = seq (for_each body xs) (for_each body ys)"
  by (induction xs) (auto simp: seq_def split: option.splits)

lemma split1_first:
  "split1 10 s = first_line s # (if 10 \<in> set s then [tl (dropWhile (\<lambda>c. c \<noteq> 10) s)] else [])"
proof (cases "10 \<in> set s")
  case True
  then show ?thesis by (simp add: split1_def first_line_def)
next
  case False
  then have tw: "takeWhile (\<lambda>c. c \<noteq> 10) s = s"
    by (induction s) auto
  show ?thesis
    unfolding split1_def first_line_def tw using False by simp
qed

lemma first_line_join: "ms \<noteq> [] \<Longrightarrow> first_line (join [10] ms) = first_line (hd ms)"
proof (cases ms)
  case Nil
  then show "ms \<noteq> [] \<Longrightarrow> ?thesis" by simp
next
  case (Cons m rest)
  then show ?thesis
    by (cases rest) (simp_all add: first_line_def takeWhile_tail)
qed

lemma first_message_line_join:
  "join [10] (messages_of a) \<noteq> [] \<Longrightarrow> first_line (join [10] (messages_of a)) = first_message_line a"
  using first_line_join [of "messages_of a"]
  by (cases "messages_of a") (simp_all add: first_message_line_def)

lemma encodable_first_message_line:
  "list_all encodable (messages_of a) \<Longrightarrow> encodable (first_message_line a)"
  by (cases "messages_of a") (simp_all add: first_message_line_def encodable_first_line)

lemma summary_failure_line_entry:
  assumes "encodable_assertion a"
  shows "summary_failure_line (failure_entry s a) = (failure_line a, None)"
proof -
  have "encodable (str_field a ''fullName'')" "encodable (first_message_line a)"
    using assms by (simp_all add: encodable_assertion_def encodable_first_message_line)
  then show ?thesis
    by (simp add: summary_failure_line_def summary_first_line_def failure_entry_def
          failure_line_def split1_first first_message_line_join print_str_encodable)
qed

lemma summary_failure_lines_suite:
  "list_all encodable_assertion as \<Longrightarrow>
   for_each summary_failure_line (map (failure_entry s) as) = (concat (map failure_line as), None)"
  by (induction as) (simp_all add: summary_failure_line_entry)

lemma encodable_suite_failed:
  "encodable_suite s \<Longrightarrow> list_all encodable_assertion (failed_assertions s)"
  by (simp add: encodable_suite_def failed_assertions_def list_all_iff)

lemma for_each_failure_lines:
  "list_all encodable_suite ss \<Longrightarrow>
   for_each summary_failure_line (concat (map (\<lambda>s. map (failure_entry s) (failed_assertions s)) ss))
   = (concat (map (\<lambda>s. concat (map failure_line (failed_assertions s))) ss), None)"
  by (induction ss)
     (simp_all add: for_each_append summary_failure_lines_suite encodable_suite_failed)

lemma summary_report_wf:
  assumes "wf_report data" "encodable_report data"
  shows "summary_report data = (summary_output data, None)"
proof -
  have tr: "get_default data (lit ''testResults'') (JArr []) = Inr (JArr (suites_of data))"
    using wf_report_suites(1) [OF assms(1)] by (simp add: get_default_field)
  have e2e: "summary_e2e (suites_of data) = (spec_e2e (suites_of data), None)"
    using wf_report_suites(2) [OF assms(1)] assms(2)
    by (intro summary_e2e_encodable) (simp_all add: encodable_report_def)
  have lines: "for_each summary_failure_line (spec_failures data)
               = (summary_failure_lines data, None)"
    unfolding spec_failures_def summary_failure_lines_def
    using assms(2) by (intro for_each_failure_lines) (simp add: encodable_report_def)
  show ?thesis
    unfolding summary_head_printed [OF wf_report_counters [OF assms(1)]]
    by (simp add: summary_failures_wf [OF assms(1)] print_count tr e2e lines
          length_spec_failures summary_output_def print_str_encodable)
qed

subsection \<open>check_full.py and failed_details.py\<close>

lemma status_is_failed_dict: "is_dict a \<Longrightarrow> status_is_failed a = Inr (is_failed a)"
  by (cases a) (auto simp: status_is_failed_def is_failed_def field_def split: option.splits)

lemma filterM_filter: "list_all (\<lambda>x. p x = Inr (q x)) xs \<Longrightarrow> filterM p xs = Inr (filter q xs)"
  by (induction xs) simp_all

lemma fails_of_wf:
  assumes "wf_suite s"
  shows "fails_of s = Inr (failed_assertions s)"
proof -
  from assms obtain as where as: "field s ''assertionResults'' = Some (JArr as)" "list_all wf_assertion as"
    by (auto simp: wf_suite_def split: option.splits json.splits)
  have "list_all (\<lambda>a. status_is_failed a = Inr (is_failed a)) as"
    using as(2) wf_assertion_obj status_is_failed_dict by (fastforce simp: list_all_iff)
  then have "filterM status_is_failed as = Inr (filter is_failed as)"
    by (rule filterM_filter)
  then show ?thesis
    using as(1) by (simp add: fails_of_def get_default_field failed_assertions_def assertions_of_def)
qed


lemma check_full_totals_int:
  assumes "has is_int data ''numTotalTests''" "has is_int data ''numPassedTests''"
    "has is_int data ''numFailedTests''" "has is_int data ''numFailedTestSuites''"
  shows "check_full_totals data = (totals_line data, None)"
  using assms
  by (auto elim!: has_int_fieldE
      simp: check_full_totals_def getitem_field totals_line_def print_str_encodable)






lemma failed_details_suite_none:
  assumes "fails_of s = Inr []"
  shows "failed_details_suite s = ([], None)"
  using assms by (simp add: failed_details_suite_def)



subsection \<open>The example reports\<close>

lemma field_assertion_obj:
  "field (assertion_obj fn st ms) ''fullName'' = Some (JStr (lit fn))"
  "field (assertion_obj fn st ms) ''status'' = Some (JStr (lit st))"
  "field (assertion_obj fn st ms) ''failureMessages'' = Some (JArr (map (\<lambda>m. JStr (lit m)) ms))"
  by (simp_all add: assertion_obj_def field_def)

lemma field_suite_obj:
  "field (suite_obj n st as) ''name'' = Some (JStr (lit n))"
  "field (suite_obj n st as) ''status'' = Some (JStr (lit st))"
  "field (suite_obj n st as) ''assertionResults'' = Some (JArr as)"
  by (simp_all add: suite_obj_def field_def)

lemma field_report_obj:
  "field (report_obj ts ps fs ks t p f k suites) ''numTotalTestSuites'' = Some (JInt ts)"
  "field (report_obj ts ps fs ks t p f k suites) ''numPassedTestSuites'' = Some (JInt ps)"
  "field (report_obj ts ps fs ks t p f k suites) ''numFailedTestSuites'' = Some (JInt fs)"
  "field (report_obj ts ps fs ks t p f k suites) ''numPendingTestSuites'' = Some (JInt ks)"
  "field (report_obj ts ps fs ks t p f k suites) ''numTotalTests'' = Some (JInt t)"
  "field (report_obj ts ps fs ks t p f k suites) ''numPassedTests'' = Some (JInt p)"
  "field (report_obj ts ps fs ks t p f k suites) ''numFailedTests'' = Some (JInt f)"
  "field (report_obj ts ps fs ks t p f k suites) ''numPendingTests'' = Some (JInt k)"
  "field (report_obj ts ps fs ks t p f k suites) ''testResults'' = Some (JArr suites)"
  by (simp_all add: report_obj_def field_def)

lemma wf_assertion_obj_example: "wf_assertion (assertion_obj fn st ms)"
  by (simp add: wf_assertion_def has_def field_assertion_obj list_all_iff)

lemma wf_suite_obj: "wf_suite (suite_obj n st as) = list_all wf_assertion as"
  by (simp add: wf_suite_def has_def field_suite_obj)

lemma wf_report_obj: "wf_report (report_obj ts ps fs ks t p f k suites) = list_all wf_suite suites"
  by (simp add: wf_report_def has_def field_report_obj)

lemma has_counters_report_obj: "has_counters (report_obj ts ps fs ks t p f k suites)"
  by (simp add: has_counters_def has_def field_report_obj)

lemma encodable_assertion_obj: "encodable_assertion (assertion_obj fn st ms)"
  by (simp add: encodable_assertion_def str_field_def messages_of_def field_assertion_obj
        list_all_iff)

lemma encodable_suite_obj:
  "encodable_suite (suite_obj n st as) = list_all encodable_assertion as"
  by (simp add: encodable_suite_def str_field_def assertions_of_def field_suite_obj)

lemma encodable_report_obj:
  "encodable_report (report_obj ts ps fs ks t p f k suites) = list_all encodable_suite suites"
  by (simp add: encodable_report_def suites_of_def field_report_obj)

lemma wf_example_report: "wf_report example_report"
  by (simp add: example_report_def example_passing_suite_def example_failing_suite_def
        wf_report_obj wf_suite_obj wf_assertion_obj_example)

lemma encodable_example_report: "encodable_report example_report"
  by (simp add: example_report_def example_passing_suite_def example_failing_suite_def
        encodable_report_obj encodable_suite_obj encodable_assertion_obj)

lemma is_failed_assertion_obj: "is_failed (assertion_obj fn st ms) = (st = ''failed'')"
  by (simp add: is_failed_def field_assertion_obj)

lemma spec_failure_count_example: "spec_failure_count example_report = 2"
  by (simp add: example_report_def example_passing_suite_def example_failing_suite_def
        spec_failure_count_def suites_of_def field_report_obj
        failed_assertions_def assertions_of_def field_suite_obj is_failed_assertion_obj)



lemma wf_example_passing_suite: "wf_suite example_passing_suite"
  by (simp add: example_passing_suite_def wf_suite_obj wf_assertion_obj_example)

lemma no_failures_example_passing_suite: "failed_assertions example_passing_suite = []"
  by (simp add: example_passing_suite_def failed_assertions_def assertions_of_def field_suite_obj
        is_failed_assertion_obj)

subsection \<open>Substrings\<close>

lemma starts_with_append: "starts_with sub (sub @ b)"
  by (induction sub) simp_all

lemma contains_starts_with: "starts_with sub s \<Longrightarrow> contains sub s"
  by (cases s) (auto elim: starts_with.elims)

lemma contains_append: "contains sub (a @ sub @ b)"
proof (induction a)
  case Nil
  show ?case
    using contains_starts_with [OF starts_with_append] by simp
next
  case (Cons x a)
  then show ?case by simp
qed

lemma summary_output_example:
  "summary_output example_report
   = lit (''TOTAL SUITES 2 PASS 1 FAIL 1 SKIPPED 0'' @ [CHR 0x0A]
           @ ''TOTAL TESTS 3 PASS 1 FAIL 2 SKIPPED 0'' @ [CHR 0x0A]
           @ ''FAILURE COUNT 2'' @ [CHR 0x0A]
           @ ''E2E FILE STATUS:'' @ [CHR 0x0A]
           @ ''   a/b/e2e-quality-orchestration.test.ts passed'' @ [CHR 0x0A]
           @ [CHR 0x0A] @ ''FAILURES:'' @ [CHR 0x0A]
           @ ''- t2: boom'' @ [CHR 0x0A]
           @ ''- t3: No message'' @ [CHR 0x0A])"
  by code_simp

lemma summary_example_output:
  "summary_report example_report
   = (lit (''TOTAL SUITES 2 PASS 1 FAIL 1 SKIPPED 0'' @ [CHR 0x0A]
           @ ''TOTAL TESTS 3 PASS 1 FAIL 2 SKIPPED 0'' @ [CHR 0x0A]
           @ ''FAILURE COUNT 2'' @ [CHR 0x0A]
           @ ''E2E FILE STATUS:'' @ [CHR 0x0A]
           @ ''   a/b/e2e-quality-orchestration.test.ts passed'' @ [CHR 0x0A]
           @ [CHR 0x0A] @ ''FAILURES:'' @ [CHR 0x0A]
           @ ''- t2: boom'' @ [CHR 0x0A]
           @ ''- t3: No message'' @ [CHR 0x0A]), None)"
  using summary_report_wf [OF wf_example_report encodable_example_report]
  by (simp only: summary_output_example)

lemma is_surrogate_code [code]: "is_surrogate c = (c div 16 div 16 div 8 = 27)"
  unfolding is_surrogate_def div_mult2_eq [symmetric] by auto

lemma summary_report_sections:
  assumes "wf_report data"
  shows "summary_report data
         = seq (summary_head data @ lit ''FAILURE COUNT '' @ str_int (int (spec_failure_count data))
                @ [10] @ lit ''E2E FILE STATUS:'' @ [10], None)
            (seq (summary_e2e (suites_of data))
            (seq ([10] @ lit ''FAILURES:'' @ [10], None)
                 (for_each summary_failure_line (spec_failures data))))"
proof -
  have tr: "get_default data (lit ''testResults'') (JArr []) = Inr (JArr (suites_of data))"
    using wf_report_suites(1) [OF assms] by (simp add: get_default_field)
  show ?thesis
    unfolding summary_head_printed [OF wf_report_counters [OF assms]]
    by (simp add: summary_failures_wf [OF assms] print_count tr length_spec_failures
          print_str_encodable)
qed



subsection \<open>Absent fields\<close>



























section \<open>The claims\<close>

text \<open>
  C2. For every well-formed report, vitest-report-summary.py builds its failure list
  without an exception, the list has one entry per assertion whose status is
  \<open>failed\<close>, counted over all suites whatever the suites' own statuses and the
  document's counters say, and the third line it prints, after the two lines of totals,
  is \<open>FAILURE COUNT n\<close> with that number.
\<close>

theorem failure_count_is_sum_over_suites:
  assumes "wf_report data"
  shows "(\<exists>failures. summary_failures data = Inr failures
            \<and> length failures = spec_failure_count data)
         \<and> (\<exists>rest. fst (summary_report data)
               = summary_head data
                 @ lit ''FAILURE COUNT '' @ str_int (int (spec_failure_count data)) @ [10]
                 @ rest)"
proof
  show "\<exists>failures. summary_failures data = Inr failures
          \<and> length failures = spec_failure_count data"
    using summary_failures_wf [OF assms] length_spec_failures by blast
  show "\<exists>rest. fst (summary_report data)
               = summary_head data
                 @ lit ''FAILURE COUNT '' @ str_int (int (spec_failure_count data)) @ [10]
                 @ rest"
    unfolding summary_report_sections [OF assms] by simp
qed

theorem failure_count_is_sum_over_suites_witness:
  "wf_report example_report \<and> spec_failure_count example_report = 2
   \<and> (\<exists>rest. fst (summary_report example_report)
         = summary_head example_report @ lit ''FAILURE COUNT '' @ str_int 2 @ [10] @ rest)"
  using failure_count_is_sum_over_suites [OF wf_example_report] wf_example_report
  by (simp add: spec_failure_count_example)



text \<open>
  C6, as amended. For a report whose counters are integers, the first line check_full.py
  prints is \<open>total=T passed=P failed=F failedSuites=S\<close>, so its output contains
  \<open>total=T\<close> and \<open>failed=F\<close>; vitest-report-summary.py prints the totals in another
  format, \<open>TOTAL SUITES ... \<close> and \<open>TOTAL TESTS T PASS P FAIL F SKIPPED K\<close>, which
  contains neither substring (the counterexample).
\<close>

theorem totals_lines_of_both_scripts:
  assumes "has_counters data"
  shows "(\<exists>rest. fst (check_full_report data)
            = lit ''total='' @ str_int (int_field data ''numTotalTests'')
              @ lit '' passed='' @ str_int (int_field data ''numPassedTests'')
              @ lit '' failed='' @ str_int (int_field data ''numFailedTests'')
              @ lit '' failedSuites='' @ str_int (int_field data ''numFailedTestSuites'')
              @ [10] @ rest)
         \<and> contains (lit ''total='' @ str_int (int_field data ''numTotalTests''))
              (fst (check_full_report data))
         \<and> contains (lit ''failed='' @ str_int (int_field data ''numFailedTests''))
              (fst (check_full_report data))
         \<and> (\<exists>rest. fst (summary_report data)
               = lit ''TOTAL SUITES '' @ str_int (int_field data ''numTotalTestSuites'')
                 @ lit '' PASS '' @ str_int (int_field data ''numPassedTestSuites'')
                 @ lit '' FAIL '' @ str_int (int_field data ''numFailedTestSuites'')
                 @ lit '' SKIPPED '' @ str_int (int_field data ''numPendingTestSuites'') @ [10]
                 @ lit ''TOTAL TESTS '' @ str_int (int_field data ''numTotalTests'')
                 @ lit '' PASS '' @ str_int (int_field data ''numPassedTests'')
                 @ lit '' FAIL '' @ str_int (int_field data ''numFailedTests'')
                 @ lit '' SKIPPED '' @ str_int (int_field data ''numPendingTests'') @ [10]
                 @ rest)"
proof -
  have totals: "check_full_totals data = (totals_line data, None)"
    using assms by (intro check_full_totals_int) (simp_all add: has_counters_def)
  define rest where "rest = fst (bind_run (getitem data (lit ''testResults'')) (\<lambda>tr.
        bind_run (py_iter tr) (\<lambda>suites. for_each check_full_suite suites)))"
  have out: "fst (check_full_report data) = totals_line data @ rest"
    by (simp add: check_full_report_def totals rest_def)
  have c1: "contains (lit ''total='' @ str_int (int_field data ''numTotalTests''))
              (fst (check_full_report data))"
    unfolding out totals_line_def
    using contains_append [of "lit ''total='' @ str_int (int_field data ''numTotalTests'')" "[]"]
    by simp
  have c2: "contains (lit ''failed='' @ str_int (int_field data ''numFailedTests''))
              (fst (check_full_report data))"
    unfolding out totals_line_def
    using contains_append [of "(tl (lit '' failed='')) @ str_int (int_field data ''numFailedTests'')"
        "lit ''total='' @ str_int (int_field data ''numTotalTests'')
         @ lit '' passed='' @ str_int (int_field data ''numPassedTests'') @ [32]"]
    by (simp add: lit_def)
  have "\<exists>rest. fst (summary_report data) = summary_head data @ rest"
    unfolding summary_head_printed [OF assms] by simp
  then have s: "\<exists>rest. fst (summary_report data)
               = lit ''TOTAL SUITES '' @ str_int (int_field data ''numTotalTestSuites'')
                 @ lit '' PASS '' @ str_int (int_field data ''numPassedTestSuites'')
                 @ lit '' FAIL '' @ str_int (int_field data ''numFailedTestSuites'')
                 @ lit '' SKIPPED '' @ str_int (int_field data ''numPendingTestSuites'') @ [10]
                 @ lit ''TOTAL TESTS '' @ str_int (int_field data ''numTotalTests'')
                 @ lit '' PASS '' @ str_int (int_field data ''numPassedTests'')
                 @ lit '' FAIL '' @ str_int (int_field data ''numFailedTests'')
                 @ lit '' SKIPPED '' @ str_int (int_field data ''numPendingTests'') @ [10]
                 @ rest"
    by (simp add: summary_head_def counts_line_def)
  have "\<exists>rest. fst (check_full_report data)
            = lit ''total='' @ str_int (int_field data ''numTotalTests'')
              @ lit '' passed='' @ str_int (int_field data ''numPassedTests'')
              @ lit '' failed='' @ str_int (int_field data ''numFailedTests'')
              @ lit '' failedSuites='' @ str_int (int_field data ''numFailedTestSuites'')
              @ [10] @ rest"
    using out by (simp add: totals_line_def)
  with c1 c2 s show ?thesis by blast
qed

theorem totals_lines_of_both_scripts_witness:
  "has_counters example_report
   \<and> contains (lit ''total='' @ str_int 3) (fst (check_full_report example_report))
   \<and> contains (lit ''failed='' @ str_int 2) (fst (check_full_report example_report))"
  using totals_lines_of_both_scripts [of example_report]
  by (simp add: example_report_def has_counters_report_obj int_field_def field_report_obj)

theorem totals_line_counterexample:
  "field example_report ''numTotalTests'' = Some (JInt 3)
   \<and> field example_report ''numFailedTests'' = Some (JInt 2)
   \<and> snd (summary_report example_report) = None
   \<and> \<not> contains (lit ''total=3'') (fst (summary_report example_report))
   \<and> \<not> contains (lit ''failed=2'') (fst (summary_report example_report))"
  unfolding summary_example_output
  by (simp add: example_report_def field_report_obj) (simp add: lit_def)

text \<open>
  C7. A suite with no failed assertion contributes nothing to the output of
  failed_details.py: its block is empty, and the report prints the same text with the
  suite as without it.
\<close>

theorem suite_without_failures_not_listed:
  assumes "wf_suite s" and "failed_assertions s = []"
    and "field data ''testResults'' = Some (JArr (before @ s # after))"
    and "field data' ''testResults'' = Some (JArr (before @ after))"
  shows "failed_details_suite s = ([], None)
         \<and> failed_details_report data = failed_details_report data'"
proof -
  have s: "failed_details_suite s = ([], None)"
    using fails_of_wf [OF assms(1)] assms(2) by (simp add: failed_details_suite_none)
  have "for_each failed_details_suite (before @ s # after)
        = for_each failed_details_suite (before @ after)"
    by (simp add: for_each_append s)
  then show ?thesis
    using s assms(3,4) by (simp add: failed_details_report_def getitem_field)
qed

theorem suite_without_failures_not_listed_witness:
  "wf_suite example_passing_suite \<and> failed_assertions example_passing_suite = []
   \<and> failed_details_report example_report
     = failed_details_report (report_obj 2 1 1 0 3 1 2 0 [example_failing_suite])"
  using suite_without_failures_not_listed [of example_passing_suite example_report "[]"
      "[example_failing_suite]" "report_obj 2 1 1 0 3 1 2 0 [example_failing_suite]"]
  by (simp add: wf_example_passing_suite no_failures_example_passing_suite example_report_def
        field_report_obj)








end
